theory Spec2Isabelle
  imports Complex_Main "HOL-Library.Signed_Division"
begin

section \<open>Nearest-colour matching in the xterm 256-colour palette\<close>

text \<open>
  A shallow embedding of \<^verbatim>\<open>src/rdb/colour_conv.c\<close> (the analytic matcher
  \<^verbatim>\<open>PuTTY_256\<close> and the exhaustive matcher \<^verbatim>\<open>XTerm_256\<close>) and of
  \<^verbatim>\<open>src/rdb/evil_colour.c\<close> (the colour-space conversions, CIEDE2000 and the
  perceptual matcher \<^verbatim>\<open>choose_XTterm256\<close>).

  C's \<^verbatim>\<open>int\<close> is modelled as \<open>int\<close>. For channels in \<open>[0,255]\<close> every
  intermediate value of the two integer matchers is below \<open>3 * 255\<^sup>2\<close> in magnitude, far
  inside the 32-bit range, so no wrap-around is written out. C's \<^verbatim>\<open>/\<close> and
  \<^verbatim>\<open>%\<close> truncate towards zero: they are \<open>sdiv\<close> and \<open>smod\<close>, not HOL's
  flooring \<open>div\<close> and \<open>mod\<close> (the difference is visible in \<^verbatim>\<open>(r-36)/40\<close>
  for \<open>r < 36\<close> and in \<^verbatim>\<open>(tw-4)/10\<close> for \<open>tw < 4\<close>).
\<close>

subsection \<open>The palette: cube and grey ramp\<close>

text \<open>The cube index of \<^verbatim>\<open>PuTTY_256\<close>, line 21:
  \<^verbatim>\<open>16 + nb + ng * 6 + nr * 36\<close>.\<close>

definition cube_index :: "int \<Rightarrow> int \<Rightarrow> int \<Rightarrow> int" where
  "cube_index nr ng nb = 16 + nb + ng * 6 + nr * 36"

text \<open>The decoding of the search loops, line 53, applied to \<^verbatim>\<open>i = c-16\<close>:
  \<^verbatim>\<open>nr = i / 36; ng = (i / 6) % 6; nb = i % 6;\<close>\<close>

definition cube_coords :: "int \<Rightarrow> int \<times> int \<times> int" where
  "cube_coords i = (i sdiv 36, (i sdiv 6) smod 6, i smod 6)"

text \<open>The component rule, lines 54--56: \<^verbatim>\<open>n ? n * 40 + 55 : 0\<close>.\<close>

definition cube_level :: "int \<Rightarrow> int" where
  "cube_level n = (if n \<noteq> 0 then n * 40 + 55 else 0)"

text \<open>The candidate colour of palette index \<open>c\<close>, lines 49--60 of \<^verbatim>\<open>XTerm_256\<close>
  (the same text is repeated in \<^verbatim>\<open>choose_XTterm256\<close>, lines 263--273).\<close>

definition paletteEntryRgb :: "int \<Rightarrow> int \<times> int \<times> int" where
  "paletteEntryRgb c =
     (let i = c - 16 in
      if c < 232 then
        (let (nr, ng, nb) = cube_coords i
         in (cube_level nr, cube_level ng, cube_level nb))
      else
        (let i = i - 216; v = i * 10 + 8 in (v, v, v)))"

subsection \<open>The search loop shared by the two exhaustive matchers\<close>

text \<open>
  \<^verbatim>\<open>XTerm_256\<close> and \<^verbatim>\<open>choose_XTterm256\<close> run the same loop
  \<^verbatim>\<open>for(c=16; c<256; c++) { ...; if (best_diff<0 || best_diff>this_diff)
  { nearest_static = c; best_diff = this_diff; } } return nearest_static;\<close>
  and differ only in how \<^verbatim>\<open>this_diff\<close> is computed from \<open>c\<close>. The loop is
  the recursion \<open>nearest_loop\<close> over the loop state
  \<open>(c, best_diff, nearest_static)\<close>.
\<close>

function nearest_loop :: "(int \<Rightarrow> int) \<Rightarrow> int \<Rightarrow> int \<Rightarrow> int \<Rightarrow> int" where
  "nearest_loop this_diff c best_diff nearest_static =
     (if c < 256 then
        (if best_diff < 0 \<or> best_diff > this_diff c
         then nearest_loop this_diff (c + 1) (this_diff c) c
         else nearest_loop this_diff (c + 1) best_diff nearest_static)
      else nearest_static)"
  by pat_completeness auto
termination
  by (relation "measure (\<lambda>(f, c, b, n). nat (256 - c))") auto

declare nearest_loop.simps [simp del]

subsection \<open>The exhaustive Euclidean matcher\<close>

text \<open>Lines 62--64: the squared per-channel differences, summed.\<close>

definition rgb_diff :: "int \<Rightarrow> int \<Rightarrow> int \<Rightarrow> int \<Rightarrow> int" where
  "rgb_diff r g b c =
     (let (nr, ng, nb) = paletteEntryRgb c;
          this_diff = 0;
          d = nr - r; this_diff = this_diff + d * d;
          d = ng - g; this_diff = this_diff + d * d;
          d = nb - b; this_diff = this_diff + d * d
      in this_diff)"

definition XTerm_256 :: "int \<Rightarrow> int \<Rightarrow> int \<Rightarrow> int" where
  "XTerm_256 r g b = nearest_loop (rgb_diff r g b) 16 (- 1) 0"

subsection \<open>The analytic matcher\<close>

text \<open>Lines 17--19: \<^verbatim>\<open>nr = (r-36)/40; if (nr == 0) nr = (r+47)/95;\<close>\<close>

definition cube_coord :: "int \<Rightarrow> int" where
  "cube_coord v = (let n = (v - 36) sdiv 40 in if n = 0 then (v + 47) sdiv 95 else n)"

text \<open>Line 23: the condition of the grey-axis override.\<close>

definition grey_branch :: "int \<Rightarrow> int \<Rightarrow> int \<Rightarrow> int \<Rightarrow> int \<Rightarrow> int \<Rightarrow> bool" where
  "grey_branch r g b nr ng nb =
     ((\<bar>r - g\<bar> < 20 \<and> \<bar>g - b\<bar> < 20 \<and> \<bar>b - r\<bar> < 20) \<or> (nr = ng \<and> ng = nb))"

text \<open>Line 27: \<^verbatim>\<open>tw = (r+g+b)/3; nw = 232 + (tw-4)/10; if (nw > 255) nw = 255;\<close>\<close>

definition grey_tw :: "int \<Rightarrow> int \<Rightarrow> int \<Rightarrow> int" where
  "grey_tw r g b = (r + g + b) sdiv 3"

definition grey_nw :: "int \<Rightarrow> int" where
  "grey_nw tw = (let nw = 232 + (tw - 4) sdiv 10 in if nw > 255 then 255 else nw)"

text \<open>Lines 29--32: three assignments to \<^verbatim>\<open>tc\<close>, then \<^verbatim>\<open>tc /= 3\<close>.\<close>

definition grey_tc :: "int \<Rightarrow> int \<Rightarrow> int \<Rightarrow> int" where
  "grey_tc nr ng nb =
     (let tc = (if nr \<noteq> 0 then nr * 40 + 55 else 0);
          tc = (if ng \<noteq> 0 then ng * 40 + 55 else 0);
          tc = (if nb \<noteq> 0 then nb * 40 + 55 else 0);
          tc = tc sdiv 3
      in tc)"

text \<open>Line 33: \<^verbatim>\<open>tg = (nw-232) * 10 + 8\<close>.\<close>

definition grey_tg :: "int \<Rightarrow> int" where
  "grey_tg nw = (nw - 232) * 10 + 8"

definition PuTTY_256 :: "int \<Rightarrow> int \<Rightarrow> int \<Rightarrow> int" where
  "PuTTY_256 r g b =
     (let nr = cube_coord r; ng = cube_coord g; nb = cube_coord b;
          nearest_static = cube_index nr ng nb
      in if grey_branch r g b nr ng nb then
           (let tw = grey_tw r g b; nw = grey_nw tw;
                tc = grey_tc nr ng nb; tg = grey_tg nw
            in if (tc - tw) * (tc - tw) \<ge> (tg - tw) * (tg - tw) then nw else nearest_static)
         else nearest_static)"

subsection \<open>Colour-space conversion and CIEDE2000\<close>

text \<open>
  \<^verbatim>\<open>evil_colour.c\<close> computes in C \<^verbatim>\<open>double\<close>, and in \<^verbatim>\<open>float\<close> in
  lines 65--67. The embedding computes the \<^verbatim>\<open>double\<close> operations in \<open>real\<close>: it
  keeps every operation, branch and constant of the source and leaves out the rounding of the
  double-precision arithmetic (and with it NaN and infinities). The single-precision steps of
  lines 65--67 are not left out: their rounding is seven orders of magnitude coarser, it decides
  the digits that \<^verbatim>\<open>sRGB_to_xyz\<close> returns, and it is written out with \<open>to_float\<close>.
\<close>

record xyzcolour =
  xyz_X :: real
  xyz_Y :: real
  xyz_Z :: real

record labcolour =
  lab_L :: real
  lab_a :: real
  lab_b :: real

text \<open>The nearest integer to a real, halfway cases to the even neighbour.\<close>

definition round_even :: "real \<Rightarrow> int" where
  "round_even q =
     (let f = \<lfloor>q\<rfloor> in
      if q - of_int f < 1 / 2 then f
      else if q - of_int f > 1 / 2 then f + 1
      else if even f then f else f + 1)"

text \<open>
  The conversion of a value to \<^verbatim>\<open>float\<close> (IEEE binary32, round to nearest, ties to
  even): a 24-bit significand at the exponent of the value, the exponent not below that of the
  subnormal numbers. Overflow to infinity (beyond \<open>2\<^sup>1\<^sup>2\<^sup>8\<close>) is outside the model.
\<close>

definition to_float :: "real \<Rightarrow> real" where
  "to_float x =
     (if x = 0 then 0
      else (let e = max \<lfloor>log 2 \<bar>x\<bar>\<rfloor> (- 126);
                u = 2 powi (e - 23)
            in of_int (round_even (x / u)) * u))"

text \<open>\<^verbatim>\<open>float roundf(float)\<close>: the nearest integer, halfway cases away from zero. The
  result of rounding a \<^verbatim>\<open>float\<close> to an integer is a \<^verbatim>\<open>float\<close> again.\<close>

definition roundf :: "real \<Rightarrow> real" where
  "roundf x = (if 0 \<le> x then of_int \<lfloor>x + 1 / 2\<rfloor> else of_int \<lceil>x - 1 / 2\<rceil>)"

text \<open>
  \<^verbatim>\<open>sRGB_to_xyz\<close>, lines 20--75, with the matrix of the \<^verbatim>\<open>#if 1\<close> block. In
  \<^verbatim>\<open>X = roundf(X * 10000) / 10000\<close> the product is a \<^verbatim>\<open>double\<close>, converted to
  \<^verbatim>\<open>float\<close> for the call; \<^verbatim>\<open>roundf\<close> returns a \<^verbatim>\<open>float\<close>; the
  \<^verbatim>\<open>int\<close> 10000 is converted to \<^verbatim>\<open>float\<close> (exactly) and the division is a
  \<^verbatim>\<open>float\<close> division, rounded to \<^verbatim>\<open>float\<close> (an implementation that evaluates
  \<^verbatim>\<open>float\<close> operations in \<^verbatim>\<open>float\<close>, \<^verbatim>\<open>FLT_EVAL_METHOD\<close> 0); the quotient is
  then stored in the \<^verbatim>\<open>double\<close> \<^verbatim>\<open>X\<close> unchanged.
\<close>

definition sRGB_to_xyz :: "int \<Rightarrow> int \<Rightarrow> int \<Rightarrow> xyzcolour" where
  "sRGB_to_xyz cR cG cB =
     (let R = real_of_int cR / 255;
          G = real_of_int cG / 255;
          B = real_of_int cB / 255;
          R = (if R > 0.04045 then ((R + 0.055) / 1.055) powr 2.4 else R / 12.92);
          G = (if G > 0.04045 then ((G + 0.055) / 1.055) powr 2.4 else G / 12.92);
          B = (if B > 0.04045 then ((B + 0.055) / 1.055) powr 2.4 else B / 12.92);
          R = R * 100;
          G = G * 100;
          B = B * 100;
          X = R * 0.4124564 + G * 0.3575761 + B * 0.1804375;
          Y = R * 0.2126729 + G * 0.7151522 + B * 0.0721750;
          Z = R * 0.0193339 + G * 0.1191920 + B * 0.9503041;
          X = to_float (roundf (to_float (X * 10000)) / 10000);
          Y = to_float (roundf (to_float (Y * 10000)) / 10000);
          Z = to_float (roundf (to_float (Z * 10000)) / 10000)
      in \<lparr>xyz_X = X, xyz_Y = Y, xyz_Z = Z\<rparr>)"

text \<open>\<^verbatim>\<open>xyz_to_lab\<close>, lines 80--107.\<close>

definition xyz_to_lab :: "xyzcolour \<Rightarrow> labcolour" where
  "xyz_to_lab c =
     (let ref_X = 95.047;
          ref_Y = 100.000;
          ref_Z = 108.883;
          Y = xyz_Y c / ref_Y;
          Z = xyz_Z c / ref_Z;
          X = xyz_X c / ref_X;
          X = (if X > 0.008856 then X powr (1 / 3) else (7.787 * X) + (16 / 116));
          Y = (if Y > 0.008856 then Y powr (1 / 3) else (7.787 * Y) + (16 / 116));
          Z = (if Z > 0.008856 then Z powr (1 / 3) else (7.787 * Z) + (16 / 116));
          L = (116 * Y) - 16;
          a = 500 * (X - Y);
          b = 200 * (Y - Z)
      in \<lparr>lab_L = L, lab_a = a, lab_b = b\<rparr>)"

text \<open>Line 109: \<^verbatim>\<open>#define pi 3.141592653589793238462643383279\<close>, a decimal
  constant of the source, not the number \<open>\<pi>\<close>.\<close>

definition pi_c :: real where
  "pi_c = 3.141592653589793238462643383279"

text \<open>The library function \<^verbatim>\<open>atan2(y, x)\<close>: the angle of the point \<open>(x, y)\<close>
  in \<open>(-\<pi>, \<pi>]\<close>.\<close>

definition atan2 :: "real \<Rightarrow> real \<Rightarrow> real" where
  "atan2 y x =
     (if 0 < x then arctan (y / x)
      else if x < 0 \<and> 0 \<le> y then arctan (y / x) + pi
      else if x < 0 \<and> y < 0 then arctan (y / x) - pi
      else if 0 < y then pi / 2
      else if y < 0 then - (pi / 2)
      else 0)"

text \<open>
  \<^verbatim>\<open>deltaE2000\<close>, lines 123--208. The two arrays of three doubles are triples; the
  result written through \<^verbatim>\<open>delta_e\<close> is the value of the function.
  \<open>deltaE2000_terms\<close> is the body up to line 204 and yields the seven locals that
  line 207 reads; \<open>deltaE2000_radicand\<close> is the argument of the \<^verbatim>\<open>sqrt\<close>
  of line 207. \<^verbatim>\<open>pow(x,7.0)\<close> and \<^verbatim>\<open>pow(x,2.0)\<close> are the powers
  \<open>x ^ 7\<close> and \<open>x\<^sup>2\<close>.
\<close>

definition deltaE2000_terms ::
  "real \<times> real \<times> real \<Rightarrow> real \<times> real \<times> real \<Rightarrow> real \<times> real \<times> real \<times> real \<times> real \<times> real \<times> real" where
  "deltaE2000_terms lab1 lab2 =
     (let Lstd = fst lab1;
          astd = fst (snd lab1);
          bstd = snd (snd lab1);
          Lsample = fst lab2;
          asample = fst (snd lab2);
          bsample = snd (snd lab2);
          Cabstd = sqrt (astd * astd + bstd * bstd);
          Cabsample = sqrt (asample * asample + bsample * bsample);
          Cabarithmean = (Cabstd + Cabsample) / 2;
          G = 0.5 * (1 - sqrt (Cabarithmean ^ 7 / (Cabarithmean ^ 7 + 25 ^ 7)));
          apstd = (1 + G) * astd;
          apsample = (1 + G) * asample;
          Cpsample = sqrt (apsample * apsample + bsample * bsample);
          Cpstd = sqrt (apstd * apstd + bstd * bstd);
          Cpprod = Cpsample * Cpstd;
          hpstd = atan2 bstd apstd;
          hpstd = (if hpstd < 0 then hpstd + 2 * pi_c else hpstd);
          hpsample = atan2 bsample apsample;
          hpsample = (if hpsample < 0 then hpsample + 2 * pi_c else hpsample);
          hpsample = (if \<bar>apsample\<bar> + \<bar>bsample\<bar> = 0 then 0 else hpsample);
          dL = Lsample - Lstd;
          dC = Cpsample - Cpstd;
          dhp = hpsample - hpstd;
          dhp = (if dhp > pi_c then dhp - 2 * pi_c else dhp);
          dhp = (if dhp < - pi_c then dhp + 2 * pi_c else dhp);
          dhp = (if Cpprod = 0 then 0 else dhp);
          dH = 2 * sqrt Cpprod * sin (dhp / 2);
          Lp = (Lsample + Lstd) / 2;
          Cp = (Cpstd + Cpsample) / 2;
          hp = (hpstd + hpsample) / 2;
          hp = (if \<bar>hpstd - hpsample\<bar> > pi_c then hp - pi_c else hp);
          hp = (if hp < 0 then hp + 2 * pi_c else hp);
          hp = (if Cpprod = 0 then hpsample + hpstd else hp);
          Lpm502 = (Lp - 50) * (Lp - 50);
          Sl = 1 + 0.015 * Lpm502 / sqrt (20 + Lpm502);
          Sc = 1 + 0.045 * Cp;
          T = 1 - 0.17 * cos (hp - pi_c / 6) + 0.24 * cos (2 * hp)
                + 0.32 * cos (3 * hp + pi_c / 30) - 0.20 * cos (4 * hp - 63 * pi_c / 180);
          Sh = 1 + 0.015 * Cp * T;
          delthetarad = (30 * pi_c / 180) * exp (- (((180 / pi_c * hp - 275) / 25)\<^sup>2));
          Rc = 2 * sqrt (Cp ^ 7 / (Cp ^ 7 + 25 ^ 7));
          RT = - sin (2 * delthetarad) * Rc
      in (dL, dC, dH, Sl, Sc, Sh, RT))"

definition deltaE2000_radicand :: "real \<times> real \<times> real \<Rightarrow> real \<times> real \<times> real \<Rightarrow> real" where
  "deltaE2000_radicand lab1 lab2 =
     (case deltaE2000_terms lab1 lab2 of (dL, dC, dH, Sl, Sc, Sh, RT) \<Rightarrow>
        (dL / Sl)\<^sup>2 + (dC / Sc)\<^sup>2 + (dH / Sh)\<^sup>2 + RT * (dC / Sc) * (dH / Sh))"

definition deltaE2000 :: "real \<times> real \<times> real \<Rightarrow> real \<times> real \<times> real \<Rightarrow> real" where
  "deltaE2000 lab1 lab2 = sqrt (deltaE2000_radicand lab1 lab2)"

text \<open>\<^verbatim>\<open>rgbCIEDE2000\<close>, lines 210--251.\<close>

definition rgbCIEDE2000 :: "int \<Rightarrow> int \<Rightarrow> int \<Rightarrow> int \<Rightarrow> int \<Rightarrow> int \<Rightarrow> real" where
  "rgbCIEDE2000 std_r std_g std_b sam_r sam_g sam_b =
     (let xstandard = sRGB_to_xyz std_r std_g std_b;
          standard = xyz_to_lab xstandard;
          xsample = sRGB_to_xyz sam_r sam_g sam_b;
          sample = xyz_to_lab xsample;
          std_d = (lab_L standard, lab_a standard, lab_b standard);
          sam_d = (lab_L sample, lab_a sample, lab_b sample)
      in deltaE2000 std_d sam_d)"

subsection \<open>The perceptual matcher\<close>

text \<open>The conversion of a \<^verbatim>\<open>double\<close> to \<^verbatim>\<open>int\<close> in the assignment of
  line 275 discards the fractional part (truncation towards zero).\<close>

definition double_to_int :: "real \<Rightarrow> int" where
  "double_to_int x = (if 0 \<le> x then \<lfloor>x\<rfloor> else \<lceil>x\<rceil>)"

text \<open>Lines 263--275: the candidate colour and
  \<^verbatim>\<open>this_diff = 10000 * rgbCIEDE2000(r,g,b, nr,ng,nb)\<close>.\<close>

definition ciede_diff :: "int \<Rightarrow> int \<Rightarrow> int \<Rightarrow> int \<Rightarrow> int" where
  "ciede_diff r g b c =
     (let (nr, ng, nb) = paletteEntryRgb c
      in double_to_int (10000 * rgbCIEDE2000 r g b nr ng nb))"

definition choose_XTterm256 :: "int \<Rightarrow> int \<Rightarrow> int \<Rightarrow> int" where
  "choose_XTterm256 r g b = nearest_loop (ciede_diff r g b) 16 (- 1) 0"

subsection \<open>The operations as seen by a caller\<close>

text \<open>
  The three matchers return a plain \<^verbatim>\<open>int\<close> and \<^verbatim>\<open>sRGB_to_xyz\<close> returns its
  struct. None of them tests its arguments and none has a failure return, so in the view of
  results as \<open>error + value\<close> every call is an \<open>Inr\<close>.
\<close>

datatype error = InvalidInput

definition matchAnalytic :: "int \<Rightarrow> int \<Rightarrow> int \<Rightarrow> error + int" where
  "matchAnalytic r g b = Inr (PuTTY_256 r g b)"

definition matchEuclidean :: "int \<Rightarrow> int \<Rightarrow> int \<Rightarrow> error + int" where
  "matchEuclidean r g b = Inr (XTerm_256 r g b)"

definition matchPerceptual :: "int \<Rightarrow> int \<Rightarrow> int \<Rightarrow> error + int" where
  "matchPerceptual r g b = Inr (choose_XTterm256 r g b)"

definition rgbToXyz :: "int \<Rightarrow> int \<Rightarrow> int \<Rightarrow> error + xyzcolour" where
  "rgbToXyz r g b = Inr (sRGB_to_xyz r g b)"

subsection \<open>Specification-side notions\<close>

text \<open>The squared RGB distance between two triples: the sum of the squared per-channel
  differences.\<close>

definition sq_dist :: "int \<times> int \<times> int \<Rightarrow> int \<times> int \<times> int \<Rightarrow> int" where
  "sq_dist p q =
     (case p of (r, g, b) \<Rightarrow> case q of (r', g', b') \<Rightarrow> (r' - r)\<^sup>2 + (g' - g)\<^sup>2 + (b' - b)\<^sup>2)"

text \<open>\<open>first_min f lo hi n\<close>: \<open>n\<close> is the brute-force argmin of \<open>f\<close> over
  \<open>lo, \<dots>, hi - 1\<close>, the lowest index among those that reach the minimum.\<close>

definition first_min :: "(int \<Rightarrow> int) \<Rightarrow> int \<Rightarrow> int \<Rightarrow> int \<Rightarrow> bool" where
  "first_min f lo hi n \<longleftrightarrow>
     lo \<le> n \<and> n < hi \<and> (\<forall>k\<in>{lo..<hi}. f n \<le> f k) \<and> (\<forall>k\<in>{lo..<n}. f n < f k)"

section \<open>Properties\<close>

subsection \<open>Truncating division on the values that occur\<close>

lemma sdiv_nonneg: "0 \<le> a \<Longrightarrow> 0 < b \<Longrightarrow> (a::int) sdiv b = a div b"
  by (simp add: signed_divide_int_def sgn_if)

lemma sdiv_neg: "a < 0 \<Longrightarrow> 0 < b \<Longrightarrow> (a::int) sdiv b = - ((- a) div b)"
  by (simp add: signed_divide_int_def sgn_if)

lemma smod_nonneg: "0 \<le> a \<Longrightarrow> 0 < b \<Longrightarrow> (a::int) smod b = a mod b"
  by (simp add: signed_modulo_int_def sgn_if)

lemma cube_coords_decode:
  assumes "0 \<le> i"
  shows "cube_coords i = (i div 36, (i div 6) mod 6, i mod 6)"
proof -
  have "0 \<le> i div 6" using assms by (simp add: pos_imp_zdiv_nonneg_iff)
  then show ?thesis using assms
    by (simp add: cube_coords_def sdiv_nonneg smod_nonneg)
qed

lemma cube_digits:
  fixes i :: int
  shows "i = 36 * (i div 36) + 6 * ((i div 6) mod 6) + i mod 6"
proof -
  have "i div 36 = (i div 6) div 6"
    using zdiv_zmult2_eq [of 6 i 6] by simp
  moreover have "i div 6 = 6 * ((i div 6) div 6) + (i div 6) mod 6" by simp
  moreover have "i = 6 * (i div 6) + i mod 6" by simp
  ultimately show ?thesis by linarith
qed

lemma cube_coords_inj:
  assumes "0 \<le> i" and "0 \<le> j" and "cube_coords i = cube_coords j"
  shows "i = j"
proof -
  from assms have e: "i div 36 = j div 36" "(i div 6) mod 6 = (j div 6) mod 6" "i mod 6 = j mod 6"
    by (simp_all add: cube_coords_decode)
  have "i = 36 * (i div 36) + 6 * ((i div 6) mod 6) + i mod 6" by (rule cube_digits)
  also have "\<dots> = 36 * (j div 36) + 6 * ((j div 6) mod 6) + j mod 6" by (simp only: e)
  also have "\<dots> = j" by (rule cube_digits [symmetric])
  finally show ?thesis .
qed

lemma level_nonzero: "n * 40 + 55 \<noteq> (0::int)"
  by presburger

lemma level_not_grey: "n * 40 + 55 \<noteq> k * 10 + (8::int)"
  by presburger

lemma cube_level_inj: "cube_level n = cube_level m \<Longrightarrow> n = m"
  using level_nonzero [of n] level_nonzero [of m]
  by (simp add: cube_level_def split: if_splits)

lemma cube_level_not_grey: "cube_level n \<noteq> k * 10 + 8"
proof (cases "n = 0")
  case True
  have "k * 10 + 8 \<noteq> (0::int)" by presburger
  with True show ?thesis by (simp add: cube_level_def)
next
  case False
  with level_not_grey [of n k] show ?thesis by (simp add: cube_level_def)
qed

lemma paletteEntryRgb_cube:
  "c < 232 \<Longrightarrow> paletteEntryRgb c =
     (case cube_coords (c - 16) of (nr, ng, nb) \<Rightarrow> (cube_level nr, cube_level ng, cube_level nb))"
  by (simp add: paletteEntryRgb_def Let_def)

lemma paletteEntryRgb_grey:
  "\<not> c < 232 \<Longrightarrow> paletteEntryRgb c =
     ((c - 232) * 10 + 8, (c - 232) * 10 + 8, (c - 232) * 10 + 8)"
  by (simp add: paletteEntryRgb_def Let_def)

lemma paletteEntryRgb_inj:
  assumes "16 \<le> c" and "16 \<le> c'" and "paletteEntryRgb c = paletteEntryRgb c'"
  shows "c = c'"
proof (cases "c < 232"; cases "c' < 232")
  assume a: "c < 232" "c' < 232"
  obtain nr ng nb where i: "cube_coords (c - 16) = (nr, ng, nb)" by (cases "cube_coords (c - 16)") auto
  obtain nr' ng' nb' where j: "cube_coords (c' - 16) = (nr', ng', nb')" by (cases "cube_coords (c' - 16)") auto
  from assms(3) a i j have "cube_level nr = cube_level nr'" "cube_level ng = cube_level ng'"
      "cube_level nb = cube_level nb'"
    by (simp_all add: paletteEntryRgb_cube)
  then have "nr = nr'" "ng = ng'" "nb = nb'" by (auto dest: cube_level_inj)
  with i j have "cube_coords (c - 16) = cube_coords (c' - 16)" by simp
  with assms(1,2) have "c - 16 = c' - 16" by (intro cube_coords_inj) simp_all
  then show ?thesis by simp
next
  assume a: "c < 232" "\<not> c' < 232"
  obtain nr ng nb where i: "cube_coords (c - 16) = (nr, ng, nb)" by (cases "cube_coords (c - 16)") auto
  from assms(3) a i have "cube_level nr = (c' - 232) * 10 + 8"
    by (simp add: paletteEntryRgb_cube paletteEntryRgb_grey)
  with cube_level_not_grey [of nr "c' - 232"] show ?thesis by blast
next
  assume a: "\<not> c < 232" "c' < 232"
  obtain nr ng nb where i: "cube_coords (c' - 16) = (nr, ng, nb)" by (cases "cube_coords (c' - 16)") auto
  from assms(3) a i have "cube_level nr = (c - 232) * 10 + 8"
    by (simp add: paletteEntryRgb_cube paletteEntryRgb_grey)
  with cube_level_not_grey [of nr "c - 232"] show ?thesis by blast
next
  assume a: "\<not> c < 232" "\<not> c' < 232"
  with assms(3) show ?thesis by (simp add: paletteEntryRgb_grey)
qed

lemma rgb_diff_eq: "rgb_diff r g b c = sq_dist (r, g, b) (paletteEntryRgb c)"
  by (simp add: rgb_diff_def sq_dist_def Let_def power2_eq_square split: prod.split)

lemma sq_dist_nonneg: "0 \<le> sq_dist p q"
  by (simp add: sq_dist_def split: prod.split)

lemma sq_dist_zero: "sq_dist p q = 0 \<Longrightarrow> q = p"
proof -
  obtain r g b where p: "p = (r, g, b)" by (cases p) auto
  obtain r' g' b' where q: "q = (r', g', b')" by (cases q) auto
  assume "sq_dist p q = 0"
  then have h: "(r' - r)\<^sup>2 + ((g' - g)\<^sup>2 + (b' - b)\<^sup>2) = 0" by (simp add: sq_dist_def p q)
  have n1: "0 \<le> (r' - r)\<^sup>2" and n2: "0 \<le> (g' - g)\<^sup>2 + (b' - b)\<^sup>2" by simp_all
  from h have "(r' - r)\<^sup>2 = 0" and s: "(g' - g)\<^sup>2 + (b' - b)\<^sup>2 = 0"
    unfolding add_nonneg_eq_0_iff [OF n1 n2] by blast+
  moreover from s have "g' - g = 0 \<and> b' - b = 0" by (simp only: sum_power2_eq_zero_iff)
  ultimately show ?thesis by (simp add: p q)
qed

subsection \<open>The search loop returns the first minimiser\<close>

text \<open>
  The invariant of the loop: before iteration \<open>c\<close>, either nothing has been seen yet
  (\<open>c = lo\<close> and \<open>best_diff\<close> is still negative), or \<open>nearest_static\<close> is the first
  minimiser over the indices seen so far and \<open>best_diff\<close> is its value. The test
  \<^verbatim>\<open>best_diff<0\<close> stands for ``nothing seen yet'' only as long as no candidate value is
  negative.
\<close>

lemma nearest_loop_first_min:
  assumes "\<forall>k\<in>{lo..<256}. 0 \<le> f k"
    and "lo \<le> c" and "c \<le> 256" and "lo < 256"
    and "(c = lo \<and> best < 0) \<or> (best = f n \<and> first_min f lo c n)"
  shows "first_min f lo 256 (nearest_loop f c best n)"
  using assms
proof (induction f c best n rule: nearest_loop.induct)
  case (1 f c best n)
  show ?case
  proof (cases "c < 256")
    case False
    with "1.prems" have "c = 256" by simp
    with "1.prems" show ?thesis by (auto simp: nearest_loop.simps [of f 256])
  next
    case True
    show ?thesis
    proof (cases "best < 0 \<or> best > f c")
      case take: True
      have fm: "first_min f lo (c + 1) c"
      proof (cases "c = lo")
        case True
        then show ?thesis by (auto simp: first_min_def)
      next
        case False
        with "1.prems" have b: "best = f n" and m: "first_min f lo c n" by auto
        from m "1.prems" \<open>c < 256\<close> have "0 \<le> f n" by (auto simp: first_min_def)
        with take b have "f c < f n" by simp
        have lt: "f c < f k" if "k \<in> {lo..<c}" for k
        proof -
          from m that have "f n \<le> f k" by (simp add: first_min_def)
          with \<open>f c < f n\<close> show ?thesis by simp
        qed
        have "\<forall>k\<in>{lo..<c + 1}. f c \<le> f k"
        proof
          fix k assume "k \<in> {lo..<c + 1}"
          then have "k = c \<or> k \<in> {lo..<c}" by auto
          then show "f c \<le> f k" using lt by (auto simp: less_imp_le)
        qed
        moreover have "\<forall>k\<in>{lo..<c}. f c < f k" using lt by blast
        ultimately show ?thesis using "1.prems" by (simp add: first_min_def)
      qed
      have "first_min f lo 256 (nearest_loop f (c + 1) (f c) c)"
        using "1.IH"(1) [OF True take] "1.prems" True fm by simp
      with True take show ?thesis by (simp add: nearest_loop.simps [of f c])
    next
      case keep: False
      with "1.prems" have b: "best = f n" and m: "first_min f lo c n" by auto
      from keep b have "f n \<le> f c" by simp
      have "\<forall>k\<in>{lo..<c + 1}. f n \<le> f k"
      proof
        fix k assume "k \<in> {lo..<c + 1}"
        then have "k = c \<or> k \<in> {lo..<c}" by auto
        then show "f n \<le> f k" using m \<open>f n \<le> f c\<close> by (auto simp: first_min_def)
      qed
      with m have fm: "first_min f lo (c + 1) n"
        by (simp add: first_min_def)
      have "first_min f lo 256 (nearest_loop f (c + 1) best n)"
        using "1.IH"(2) [OF True keep] "1.prems" True fm b by simp
      with True keep show ?thesis by (simp add: nearest_loop.simps [of f c])
    qed
  qed
qed

text \<open>Whatever the candidate values are, the loop started at 16 returns an index of the
  range it scans.\<close>

lemma nearest_loop_range:
  assumes "16 \<le> c" and "(c = 16 \<and> best < 0) \<or> (16 \<le> n \<and> n \<le> 255)"
  shows "16 \<le> nearest_loop f c best n \<and> nearest_loop f c best n \<le> 255"
  using assms
proof (induction f c best n rule: nearest_loop.induct)
  case (1 f c best n)
  show ?case
  proof (cases "c < 256")
    case False
    with "1.prems" show ?thesis by (auto simp: nearest_loop.simps [of f c])
  next
    case True
    show ?thesis
    proof (cases "best < 0 \<or> best > f c")
      case take: True
      have "16 \<le> nearest_loop f (c + 1) (f c) c \<and> nearest_loop f (c + 1) (f c) c \<le> 255"
        using "1.IH"(1) [OF True take] "1.prems" True by simp
      with True take show ?thesis by (simp add: nearest_loop.simps [of f c])
    next
      case keep: False
      have "16 \<le> nearest_loop f (c + 1) best n \<and> nearest_loop f (c + 1) best n \<le> 255"
        using "1.IH"(2) [OF True keep] "1.prems" True keep by auto
      with True keep show ?thesis by (simp add: nearest_loop.simps [of f c])
    qed
  qed
qed

subsection \<open>The exhaustive Euclidean matcher\<close>

lemma rgb_diff_nonneg: "0 \<le> rgb_diff r g b c"
  by (simp add: rgb_diff_eq sq_dist_nonneg)

lemma XTerm_256_first_min: "first_min (rgb_diff r g b) 16 256 (XTerm_256 r g b)"
  unfolding XTerm_256_def
  by (rule nearest_loop_first_min) (simp_all add: rgb_diff_nonneg)

text \<open>
  Claim C1. For every triple \<open>(r, g, b)\<close> with each channel in \<open>[0,255]\<close>,
  \<open>XTerm_256\<close> returns the brute-force argmin of the squared RGB distance over the palette
  entries 16..255: the returned index is in that range, no entry is nearer, and every entry with
  a lower index is strictly farther, so that among the entries at minimal distance the first one
  is returned.
\<close>

theorem XTerm_256_brute_force_argmin:
  assumes "0 \<le> r \<and> r \<le> 255" and "0 \<le> g \<and> g \<le> 255" and "0 \<le> b \<and> b \<le> 255"
  shows "16 \<le> XTerm_256 r g b \<and> XTerm_256 r g b \<le> 255 \<and>
         (\<forall>k\<in>{16..255}. sq_dist (r, g, b) (paletteEntryRgb (XTerm_256 r g b))
                           \<le> sq_dist (r, g, b) (paletteEntryRgb k)) \<and>
         (\<forall>k\<in>{16..<XTerm_256 r g b}. sq_dist (r, g, b) (paletteEntryRgb (XTerm_256 r g b))
                           < sq_dist (r, g, b) (paletteEntryRgb k))"
proof -
  have m: "first_min (rgb_diff r g b) 16 256 (XTerm_256 r g b)" by (rule XTerm_256_first_min)
  have i: "{16..255} = {16..<(256::int)}" by auto
  from m show ?thesis unfolding i first_min_def rgb_diff_eq by simp
qed

text \<open>Pure red is the cube corner 196, found through the theorem.\<close>

lemma palette_196: "paletteEntryRgb 196 = (255, 0, 0)"
  by (simp add: paletteEntryRgb_def cube_coords_def cube_level_def)

theorem XTerm_256_brute_force_argmin_witness:
  "(0::int) \<le> 255 \<and> (255::int) \<le> 255 \<and> (0::int) \<le> 0 \<and> (0::int) \<le> 255 \<and>
   XTerm_256 255 0 0 = 196"
proof -
  let ?x = "XTerm_256 255 0 0"
  have t: "16 \<le> ?x \<and> ?x \<le> 255 \<and>
     (\<forall>k\<in>{16..255}. sq_dist (255, 0, 0) (paletteEntryRgb ?x) \<le> sq_dist (255, 0, 0) (paletteEntryRgb k)) \<and>
     (\<forall>k\<in>{16..<?x}. sq_dist (255, 0, 0) (paletteEntryRgb ?x) < sq_dist (255, 0, 0) (paletteEntryRgb k))"
    by (rule XTerm_256_brute_force_argmin) simp_all
  then have "sq_dist (255, 0, 0) (paletteEntryRgb ?x) \<le> sq_dist (255, 0, 0) (paletteEntryRgb 196)"
    by simp
  also have "\<dots> = 0" by (simp add: palette_196 sq_dist_def)
  finally have "sq_dist (255, 0, 0) (paletteEntryRgb ?x) = 0"
    using sq_dist_nonneg [of "(255, 0, 0)" "paletteEntryRgb ?x"] by simp
  then have "paletteEntryRgb ?x = paletteEntryRgb 196"
    by (simp add: sq_dist_zero palette_196)
  with t have "?x = 196" by (intro paletteEntryRgb_inj) simp_all
  then show ?thesis by simp
qed

subsection \<open>The cube coordinates\<close>

text \<open>
  Claim C8. For cube coordinates \<open>nr, ng, nb\<close> in \<open>[0,5]\<close>, decoding the index
  \<open>16 + nb + ng * 6 + nr * 36\<close> as the search loops do (\<open>i / 36\<close>, \<open>(i / 6) % 6\<close>,
  \<open>i % 6\<close> on \<open>i = index - 16\<close>) gives back \<open>(nr, ng, nb)\<close>.
\<close>

theorem cube_roundtrip:
  assumes "0 \<le> nr \<and> nr \<le> 5" and "0 \<le> ng \<and> ng \<le> 5" and "0 \<le> nb \<and> nb \<le> 5"
  shows "cube_coords (cube_index nr ng nb - 16) = (nr, ng, nb)"
proof -
  let ?i = "nb + ng * 6 + nr * 36"
  have i: "cube_index nr ng nb - 16 = ?i" by (simp add: cube_index_def)
  have pos: "0 \<le> ?i" using assms by simp
  have r: "?i div 36 = nr"
    by (rule int_div_pos_eq [where r = "nb + ng * 6"]) (use assms in simp_all)
  have g6: "?i div 6 = ng + nr * 6"
    by (rule int_div_pos_eq [where r = nb]) (use assms in simp_all)
  have g: "(ng + nr * 6) mod 6 = ng"
    by (rule int_mod_pos_eq [where q = nr]) (use assms in simp_all)
  have b: "?i mod 6 = nb"
    by (rule int_mod_pos_eq [where q = "ng + nr * 6"]) (use assms in simp_all)
  show ?thesis unfolding i cube_coords_decode [OF pos] r g6 g b ..
qed

theorem cube_roundtrip_witness:
  "(0::int) \<le> 5 \<and> (5::int) \<le> 5 \<and> (0::int) \<le> 2 \<and> (2::int) \<le> 5 \<and> (0::int) \<le> 3 \<and> (3::int) \<le> 5 \<and>
   cube_index 5 2 3 = 211 \<and> cube_coords (211 - 16) = (5, 2, 3)"
proof -
  have "cube_coords (cube_index 5 2 3 - 16) = (5, 2, 3)"
    by (rule cube_roundtrip) simp_all
  moreover have "cube_index 5 2 3 = 211" by (simp add: cube_index_def)
  ultimately show ?thesis by simp
qed

subsection \<open>Palette colours are matched to themselves\<close>

text \<open>
  Claim C10. For every palette index \<open>c\<close> in \<open>[16,255]\<close>, \<open>XTerm_256\<close> applied to the
  colour of entry \<open>c\<close> returns \<open>c\<close>; the colours of the 240 entries are pairwise
  distinct, so the candidate at distance zero is the only minimiser.
\<close>

theorem XTerm_256_palette_fixpoint:
  assumes "16 \<le> c \<and> c \<le> 255"
  shows "(case paletteEntryRgb c of (r, g, b) \<Rightarrow> XTerm_256 r g b) = c \<and>
         (\<forall>c'\<in>{16..255}. c' \<noteq> c \<longrightarrow> paletteEntryRgb c' \<noteq> paletteEntryRgb c)"
proof -
  obtain r g b where p: "paletteEntryRgb c = (r, g, b)" by (cases "paletteEntryRgb c") auto
  let ?x = "XTerm_256 r g b"
  have m: "first_min (rgb_diff r g b) 16 256 ?x" by (rule XTerm_256_first_min)
  then have x: "16 \<le> ?x" by (simp add: first_min_def)
  from m assms have "rgb_diff r g b ?x \<le> rgb_diff r g b c" by (simp add: first_min_def)
  also have "\<dots> = 0" by (simp add: rgb_diff_eq p sq_dist_def)
  finally have "sq_dist (r, g, b) (paletteEntryRgb ?x) = 0"
    using sq_dist_nonneg [of "(r, g, b)" "paletteEntryRgb ?x"] by (simp add: rgb_diff_eq)
  then have "paletteEntryRgb ?x = paletteEntryRgb c" by (simp add: sq_dist_zero p)
  with x assms have "?x = c" by (intro paletteEntryRgb_inj) simp_all
  moreover have "\<forall>c'\<in>{16..255}. c' \<noteq> c \<longrightarrow> paletteEntryRgb c' \<noteq> paletteEntryRgb c"
    using assms by (auto dest: paletteEntryRgb_inj [rotated 2])
  ultimately show ?thesis by (simp add: p)
qed

lemma palette_244: "paletteEntryRgb 244 = (128, 128, 128)"
  by (simp add: paletteEntryRgb_def)

theorem XTerm_256_palette_fixpoint_witness:
  "(16::int) \<le> 244 \<and> (244::int) \<le> 255 \<and> paletteEntryRgb 244 = (128, 128, 128) \<and>
   XTerm_256 128 128 128 = 244"
  using XTerm_256_palette_fixpoint [of 244] by (simp add: palette_244)

subsection \<open>The analytic matcher\<close>

lemma cube_coord_range:
  assumes "0 \<le> v" and "v \<le> 255"
  shows "0 \<le> cube_coord v \<and> cube_coord v \<le> 5"
proof (cases "v < 36")
  case True
  then have "(v - 36) sdiv 40 = 0" using assms by (simp add: sdiv_neg)
  moreover have "(v + 47) sdiv 95 = 0" using assms True by (simp add: sdiv_nonneg)
  ultimately show ?thesis by (simp add: cube_coord_def)
next
  case False
  then have a: "(v - 36) sdiv 40 = (v - 36) div 40" by (simp add: sdiv_nonneg)
  have b: "(v + 47) sdiv 95 = (v + 47) div 95" using assms by (simp add: sdiv_nonneg)
  have "(v - 36) div 40 \<le> 219 div 40" using assms by (intro zdiv_mono1) simp_all
  moreover have "0 \<le> (v - 36) div 40" using False by (simp add: pos_imp_zdiv_nonneg_iff)
  moreover have "(v + 47) div 95 \<le> 302 div 95" using assms by (intro zdiv_mono1) simp_all
  moreover have "0 \<le> (v + 47) div 95" using assms by (simp add: pos_imp_zdiv_nonneg_iff)
  ultimately show ?thesis by (simp add: cube_coord_def Let_def a b)
qed

lemma cube_index_range:
  assumes "0 \<le> nr \<and> nr \<le> 5" and "0 \<le> ng \<and> ng \<le> 5" and "0 \<le> nb \<and> nb \<le> 5"
  shows "16 \<le> cube_index nr ng nb \<and> cube_index nr ng nb \<le> 231"
  using assms by (simp add: cube_index_def)

lemma grey_tw_range:
  assumes "0 \<le> r \<and> r \<le> 255" and "0 \<le> g \<and> g \<le> 255" and "0 \<le> b \<and> b \<le> 255"
  shows "0 \<le> grey_tw r g b \<and> grey_tw r g b \<le> 255"
proof -
  have "grey_tw r g b = (r + g + b) div 3" using assms by (simp add: grey_tw_def sdiv_nonneg)
  moreover have "0 \<le> (r + g + b) div 3" using assms by (simp add: pos_imp_zdiv_nonneg_iff)
  moreover have "(r + g + b) div 3 \<le> 765 div 3" using assms by (intro zdiv_mono1) simp_all
  ultimately show ?thesis by simp
qed

lemma grey_nw_range:
  assumes "0 \<le> tw"
  shows "232 \<le> grey_nw tw \<and> grey_nw tw \<le> 255"
proof (cases "tw < 4")
  case True
  have "(4 - tw) div 10 = 0" using assms True by simp
  with True have "(tw - 4) sdiv 10 = 0" by (simp add: sdiv_neg)
  then show ?thesis by (simp add: grey_nw_def)
next
  case False
  then have "(tw - 4) sdiv 10 = (tw - 4) div 10" by (simp add: sdiv_nonneg)
  moreover have "0 \<le> (tw - 4) div 10" using False by (simp add: pos_imp_zdiv_nonneg_iff)
  ultimately show ?thesis by (simp add: grey_nw_def Let_def)
qed

lemma PuTTY_256_range:
  assumes "0 \<le> r \<and> r \<le> 255" and "0 \<le> g \<and> g \<le> 255" and "0 \<le> b \<and> b \<le> 255"
  shows "16 \<le> PuTTY_256 r g b \<and> PuTTY_256 r g b \<le> 255"
proof -
  have c: "16 \<le> cube_index (cube_coord r) (cube_coord g) (cube_coord b) \<and>
           cube_index (cube_coord r) (cube_coord g) (cube_coord b) \<le> 231"
    using assms by (intro cube_index_range cube_coord_range) simp_all
  have w: "232 \<le> grey_nw (grey_tw r g b) \<and> grey_nw (grey_tw r g b) \<le> 255"
    using grey_tw_range [OF assms] by (intro grey_nw_range) simp
  from c w show ?thesis by (simp add: PuTTY_256_def Let_def)
qed

lemma choose_XTterm256_range: "16 \<le> choose_XTterm256 r g b \<and> choose_XTterm256 r g b \<le> 255"
  unfolding choose_XTterm256_def by (rule nearest_loop_range) simp_all

lemma XTerm_256_range: "16 \<le> XTerm_256 r g b \<and> XTerm_256 r g b \<le> 255"
  unfolding XTerm_256_def by (rule nearest_loop_range) simp_all

text \<open>
  Claim C6. For every triple with each channel in \<open>[0,255]\<close>, each of the three matchers
  (\<open>PuTTY_256\<close>, \<open>XTerm_256\<close>, \<open>choose_XTterm256\<close>) returns one index, and that index
  lies in \<open>[16,255]\<close>; none of them returns an index in \<open>[0,15]\<close>.
\<close>

theorem matchers_index_range:
  assumes "0 \<le> r \<and> r \<le> 255" and "0 \<le> g \<and> g \<le> 255" and "0 \<le> b \<and> b \<le> 255"
  shows "(16 \<le> PuTTY_256 r g b \<and> PuTTY_256 r g b \<le> 255) \<and>
         (16 \<le> XTerm_256 r g b \<and> XTerm_256 r g b \<le> 255) \<and>
         (16 \<le> choose_XTterm256 r g b \<and> choose_XTterm256 r g b \<le> 255)"
  using PuTTY_256_range [OF assms] XTerm_256_range [of r g b] choose_XTterm256_range [of r g b]
  by blast

lemma PuTTY_256_white: "PuTTY_256 255 255 255 = 255"
  by (simp add: PuTTY_256_def cube_coord_def grey_branch_def grey_tw_def grey_nw_def
      grey_tc_def grey_tg_def cube_index_def)

theorem matchers_index_range_witness:
  "(0::int) \<le> 255 \<and> (255::int) \<le> 255 \<and> PuTTY_256 255 255 255 = 255 \<and>
   16 \<le> XTerm_256 255 255 255 \<and> XTerm_256 255 255 255 \<le> 255 \<and>
   16 \<le> choose_XTterm256 255 255 255 \<and> choose_XTterm256 255 255 255 \<le> 255"
  using matchers_index_range [of 255 255 255] by (simp add: PuTTY_256_white)

text \<open>
  Claim C2 says that on a tie between the two squared distances the grey-axis override keeps
  the cube index. The comparison of line 35 is \<^verbatim>\<open>>=\<close>, so a tie selects the grey
  candidate \<open>nw\<close>. At \<open>(4, 4, 4)\<close> the override fires, \<open>tc = 0\<close>, \<open>tw = 4\<close>,
  \<open>tg = 8\<close>, both squared distances are 16, the cube index is 16 and the function returns
  232.
\<close>

theorem PuTTY_256_tie_counterexample:
  "grey_branch 4 4 4 (cube_coord 4) (cube_coord 4) (cube_coord 4) \<and>
   (grey_tc (cube_coord 4) (cube_coord 4) (cube_coord 4) - grey_tw 4 4 4)
     * (grey_tc (cube_coord 4) (cube_coord 4) (cube_coord 4) - grey_tw 4 4 4)
   = (grey_tg (grey_nw (grey_tw 4 4 4)) - grey_tw 4 4 4)
     * (grey_tg (grey_nw (grey_tw 4 4 4)) - grey_tw 4 4 4) \<and>
   cube_index (cube_coord 4) (cube_coord 4) (cube_coord 4) = 16 \<and>
   grey_nw (grey_tw 4 4 4) = 232 \<and>
   PuTTY_256 4 4 4 = 232"
  by (simp add: PuTTY_256_def cube_coord_def grey_branch_def grey_tw_def grey_nw_def
      grey_tc_def grey_tg_def cube_index_def)

text \<open>
  Claim C2, amended. Whenever the grey-axis override fires and the squared distance from
  \<open>tc\<close> to \<open>tw\<close> equals the squared distance from \<open>tg\<close> to \<open>tw\<close>, the function
  returns the grey candidate \<open>nw\<close>.
\<close>

theorem PuTTY_256_tie_returns_grey:
  assumes "grey_branch r g b (cube_coord r) (cube_coord g) (cube_coord b)"
    and "(grey_tc (cube_coord r) (cube_coord g) (cube_coord b) - grey_tw r g b)
           * (grey_tc (cube_coord r) (cube_coord g) (cube_coord b) - grey_tw r g b)
         = (grey_tg (grey_nw (grey_tw r g b)) - grey_tw r g b)
           * (grey_tg (grey_nw (grey_tw r g b)) - grey_tw r g b)"
  shows "PuTTY_256 r g b = grey_nw (grey_tw r g b)"
  using assms by (simp add: PuTTY_256_def Let_def)

theorem PuTTY_256_tie_returns_grey_witness:
  "grey_branch 3 4 5 (cube_coord 3) (cube_coord 4) (cube_coord 5) \<and>
   (grey_tc (cube_coord 3) (cube_coord 4) (cube_coord 5) - grey_tw 3 4 5)
     * (grey_tc (cube_coord 3) (cube_coord 4) (cube_coord 5) - grey_tw 3 4 5)
   = (grey_tg (grey_nw (grey_tw 3 4 5)) - grey_tw 3 4 5)
     * (grey_tg (grey_nw (grey_tw 3 4 5)) - grey_tw 3 4 5) \<and>
   grey_nw (grey_tw 3 4 5) = 232 \<and>
   PuTTY_256 3 4 5 = 232"
proof -
  have a: "grey_branch 3 4 5 (cube_coord 3) (cube_coord 4) (cube_coord 5)"
    by (simp add: grey_branch_def)
  have b: "(grey_tc (cube_coord 3) (cube_coord 4) (cube_coord 5) - grey_tw 3 4 5)
     * (grey_tc (cube_coord 3) (cube_coord 4) (cube_coord 5) - grey_tw 3 4 5)
   = (grey_tg (grey_nw (grey_tw 3 4 5)) - grey_tw 3 4 5)
     * (grey_tg (grey_nw (grey_tw 3 4 5)) - grey_tw 3 4 5)"
    by (simp add: cube_coord_def grey_tw_def grey_nw_def grey_tc_def grey_tg_def)
  have c: "grey_nw (grey_tw 3 4 5) = 232" by (simp add: grey_tw_def grey_nw_def)
  from PuTTY_256_tie_returns_grey [OF a b] a b c show ?thesis by simp
qed

text \<open>
  Claim C3. In the grey-axis override \<open>tc\<close> is assigned three times and only the last
  assignment survives: the value compared with the grey proxy is
  \<open>(nb ? nb*40+55 : 0)/3\<close>, whatever \<open>nr\<close> and \<open>ng\<close> are, and for every input that
  reaches the branch the result is decided by that value.
\<close>

theorem grey_tc_last_channel_only:
  "grey_tc nr ng nb = (if nb \<noteq> 0 then nb * 40 + 55 else 0) sdiv 3 \<and>
   grey_tc nr' ng' nb = grey_tc nr ng nb \<and>
   (grey_branch r g b (cube_coord r) (cube_coord g) (cube_coord b) \<longrightarrow>
    PuTTY_256 r g b =
      (let tw = grey_tw r g b; nw = grey_nw tw; tg = grey_tg nw;
           tc = (if cube_coord b \<noteq> 0 then cube_coord b * 40 + 55 else 0) sdiv 3
       in if (tc - tw) * (tc - tw) \<ge> (tg - tw) * (tg - tw) then nw
          else cube_index (cube_coord r) (cube_coord g) (cube_coord b)))"
  by (simp add: grey_tc_def PuTTY_256_def Let_def)

theorem grey_tc_last_channel_only_witness:
  "grey_branch 120 120 110 (cube_coord 120) (cube_coord 120) (cube_coord 110) \<and>
   cube_coord 120 = 2 \<and> cube_coord 110 = 1 \<and>
   grey_tc 2 2 1 = 31 \<and> grey_tc 5 0 1 = 31 \<and>
   PuTTY_256 120 120 110 = 243"
proof -
  have c: "cube_coord 120 = 2" "cube_coord 110 = 1" by (simp_all add: cube_coord_def)
  have g: "grey_branch 120 120 110 (cube_coord 120) (cube_coord 120) (cube_coord 110)"
    by (simp add: grey_branch_def)
  note t = grey_tc_last_channel_only [where nr = 2 and ng = 2 and nb = 1 and nr' = 5 and ng' = 0
      and r = 120 and g = 120 and b = 110]
  from t have "grey_tc 2 2 1 = 31" "grey_tc 5 0 1 = 31" by simp_all
  moreover from t g have "PuTTY_256 120 120 110 = 243"
    by (simp add: c grey_tw_def grey_nw_def grey_tg_def cube_index_def)
  ultimately show ?thesis using c g by simp
qed

subsection \<open>CIEDE2000 is nonnegative\<close>

text \<open>With a rotation term of magnitude at most 2 the argument of the square root is
  \<open>x\<^sup>2\<close> plus at least \<open>(\<bar>y\<bar> - \<bar>z\<bar>)\<^sup>2\<close>.\<close>

lemma radicand_shape_nonneg:
  fixes x y z RT :: real
  assumes "\<bar>RT\<bar> \<le> 2"
  shows "0 \<le> x\<^sup>2 + y\<^sup>2 + z\<^sup>2 + RT * y * z"
proof -
  have "\<bar>RT * (y * z)\<bar> \<le> 2 * \<bar>y * z\<bar>"
    unfolding abs_mult [of RT] using assms by (intro mult_right_mono) simp_all
  then have a: "- (2 * \<bar>y * z\<bar>) \<le> RT * y * z"
    by (simp add: abs_le_iff mult.assoc)
  have "0 \<le> (\<bar>y\<bar> - \<bar>z\<bar>)\<^sup>2" by simp
  also have "(\<bar>y\<bar> - \<bar>z\<bar>)\<^sup>2 = y\<^sup>2 + z\<^sup>2 - 2 * \<bar>y * z\<bar>"
    by (simp add: power2_diff abs_mult)
  finally have b: "2 * \<bar>y * z\<bar> \<le> y\<^sup>2 + z\<^sup>2" by simp
  have "0 \<le> x\<^sup>2" by simp
  with a b show ?thesis by linarith
qed

lemma ratio_unit:
  fixes p q :: real
  assumes "0 \<le> p" and "0 < q"
  shows "0 \<le> p / (p + q)" and "p / (p + q) \<le> 1"
proof -
  from assms have pq: "0 < p + q" by (rule add_nonneg_pos)
  with assms show "0 \<le> p / (p + q)" by simp
  from pq assms show "p / (p + q) \<le> 1" by (simp add: divide_le_eq)
qed

lemma chroma_ratio_unit:
  fixes C :: real
  assumes "0 \<le> C"
  shows "0 \<le> C ^ 7 / (C ^ 7 + 25 ^ 7)" and "C ^ 7 / (C ^ 7 + 25 ^ 7) \<le> 1"
proof -
  have c: "0 \<le> C ^ 7" using assms by simp
  have q: "(0::real) < 25 ^ 7" by simp
  show "0 \<le> C ^ 7 / (C ^ 7 + 25 ^ 7)" by (rule ratio_unit(1) [OF c q])
  show "C ^ 7 / (C ^ 7 + 25 ^ 7) \<le> 1" by (rule ratio_unit(2) [OF c q])
qed

lemma RT_bound:
  fixes C d :: real
  assumes "0 \<le> C"
  shows "\<bar>- sin (2 * d) * (2 * sqrt (C ^ 7 / (C ^ 7 + 25 ^ 7)))\<bar> \<le> 2"
proof -
  have "sqrt (C ^ 7 / (C ^ 7 + 25 ^ 7)) \<le> 1"
    using chroma_ratio_unit [OF assms] by simp
  moreover have "0 \<le> sqrt (C ^ 7 / (C ^ 7 + 25 ^ 7))"
    using chroma_ratio_unit [OF assms] by simp
  ultimately have r: "\<bar>2 * sqrt (C ^ 7 / (C ^ 7 + 25 ^ 7))\<bar> \<le> 2" by simp
  have s: "\<bar>- sin (2 * d)\<bar> \<le> 1" by simp
  have "\<bar>- sin (2 * d)\<bar> * \<bar>2 * sqrt (C ^ 7 / (C ^ 7 + 25 ^ 7))\<bar> \<le> 1 * 2"
    using s r by (intro mult_mono) simp_all
  then show ?thesis by (simp only: abs_mult mult_1)
qed

text \<open>The three divisors of line 207 are at least 1, so the C code never divides by zero there.\<close>

lemma Sl_bound:
  fixes L :: real
  shows "1 \<le> 1 + 0.015 * ((L - 50) * (L - 50)) / sqrt (20 + (L - 50) * (L - 50))"
proof -
  define q where "q = (L - 50) * (L - 50)"
  have n: "0 \<le> q" unfolding q_def by (rule zero_le_square)
  then have "0 \<le> sqrt (20 + q)" by simp
  moreover from n have "0 \<le> 0.015 * q" by simp
  ultimately have "0 \<le> 0.015 * q / sqrt (20 + q)" by (rule divide_nonneg_nonneg [rotated])
  then show ?thesis unfolding q_def by simp
qed

lemma Sc_bound:
  fixes C :: real
  assumes "0 \<le> C"
  shows "1 \<le> 1 + 0.045 * C"
  using assms by simp

lemma T_lower:
  fixes c1 c2 c3 c4 :: real
  assumes "c1 \<le> 1" and "- 1 \<le> c2" and "- 1 \<le> c3" and "c4 \<le> 1"
  shows "0 \<le> 1 - 0.17 * c1 + 0.24 * c2 + 0.32 * c3 - 0.20 * c4"
proof -
  have "17 * c1 \<le> 17" "- 24 \<le> 24 * c2" "- 32 \<le> 32 * c3" "20 * c4 \<le> 20"
    using assms by simp_all
  then have "0 \<le> 100 - 17 * c1 + 24 * c2 + 32 * c3 - 20 * c4" by linarith
  then show ?thesis by simp
qed

lemma Sh_bound:
  fixes C :: real
  assumes "0 \<le> C"
  shows "1 \<le> 1 + 0.015 * C * (1 - 0.17 * cos a1 + 0.24 * cos a2 + 0.32 * cos a3 - 0.20 * cos a4)"
proof -
  have "0 \<le> 1 - 0.17 * cos a1 + 0.24 * cos a2 + 0.32 * cos a3 - 0.20 * cos a4"
    by (rule T_lower) simp_all
  moreover from assms have "0 \<le> 0.015 * C" by simp
  ultimately have
    "0 \<le> 0.015 * C * (1 - 0.17 * cos a1 + 0.24 * cos a2 + 0.32 * cos a3 - 0.20 * cos a4)"
    by (rule mult_nonneg_nonneg [rotated])
  then show ?thesis by simp
qed

lemma mean_chroma_nonneg: "0 \<le> (sqrt x + sqrt y) / 2" if "0 \<le> x" "0 \<le> y" for x y :: real
  using that by simp

lemma deltaE2000_terms_bounds:
  assumes "deltaE2000_terms lab1 lab2 = (dL, dC, dH, Sl, Sc, Sh, RT)"
  shows "\<bar>RT\<bar> \<le> 2" and "1 \<le> Sl" and "1 \<le> Sc" and "1 \<le> Sh"
proof -
  have "\<bar>snd (snd (snd (snd (snd (snd (deltaE2000_terms lab1 lab2))))))\<bar> \<le> 2"
    unfolding deltaE2000_terms_def Let_def snd_conv
    by (rule RT_bound) simp
  with assms show "\<bar>RT\<bar> \<le> 2" by simp
  have "1 \<le> fst (snd (snd (snd (deltaE2000_terms lab1 lab2))))"
    unfolding deltaE2000_terms_def Let_def snd_conv fst_conv
    by (rule Sl_bound)
  with assms show "1 \<le> Sl" by simp
  have "1 \<le> fst (snd (snd (snd (snd (deltaE2000_terms lab1 lab2)))))"
    unfolding deltaE2000_terms_def Let_def snd_conv fst_conv
    by (rule Sc_bound) simp
  with assms show "1 \<le> Sc" by simp
  have "1 \<le> fst (snd (snd (snd (snd (snd (deltaE2000_terms lab1 lab2))))))"
    unfolding deltaE2000_terms_def Let_def snd_conv fst_conv
    by (rule Sh_bound) simp
  with assms show "1 \<le> Sh" by simp
qed

lemma deltaE2000_radicand_nonneg: "0 \<le> deltaE2000_radicand lab1 lab2"
proof -
  obtain dL dC dH Sl Sc Sh RT where t: "deltaE2000_terms lab1 lab2 = (dL, dC, dH, Sl, Sc, Sh, RT)"
    by (cases "deltaE2000_terms lab1 lab2") auto
  have "0 \<le> (dL / Sl)\<^sup>2 + (dC / Sc)\<^sup>2 + (dH / Sh)\<^sup>2 + RT * (dC / Sc) * (dH / Sh)"
    by (rule radicand_shape_nonneg) (rule deltaE2000_terms_bounds(1) [OF t])
  then show ?thesis by (simp add: deltaE2000_radicand_def t)
qed

lemma deltaE2000_nonneg_aux: "0 \<le> deltaE2000 lab1 lab2"
  by (simp add: deltaE2000_def deltaE2000_radicand_nonneg)

text \<open>
  Claim C7. For every pair of Lab triples the argument of the final square root of
  \<open>deltaE2000\<close>, \<open>(dL/Sl)\<^sup>2 + (dC/Sc)\<^sup>2 + (dH/Sh)\<^sup>2 + RT*(dC/Sc)*(dH/Sh)\<close>, is not
  negative, because \<open>\<bar>RT\<bar> \<le> 2\<close>; so the square root is taken of a nonnegative number and
  the result is nonnegative. (Over the reals; the divisors \<open>Sl\<close>, \<open>Sc\<close>, \<open>Sh\<close> are
  positive.)
\<close>

theorem deltaE2000_nonneg:
  "0 \<le> deltaE2000_radicand lab1 lab2 \<and> 0 \<le> deltaE2000 lab1 lab2 \<and>
   (case deltaE2000_terms lab1 lab2 of (dL, dC, dH, Sl, Sc, Sh, RT) \<Rightarrow>
      \<bar>RT\<bar> \<le> 2 \<and> 0 < Sl \<and> 0 < Sc \<and> 0 < Sh)"
proof -
  obtain dL dC dH Sl Sc Sh RT where t: "deltaE2000_terms lab1 lab2 = (dL, dC, dH, Sl, Sc, Sh, RT)"
    by (cases "deltaE2000_terms lab1 lab2") auto
  from deltaE2000_terms_bounds [OF t] have "\<bar>RT\<bar> \<le> 2 \<and> 0 < Sl \<and> 0 < Sc \<and> 0 < Sh" by simp
  with deltaE2000_radicand_nonneg [of lab1 lab2] deltaE2000_nonneg_aux [of lab1 lab2]
  show ?thesis by (simp add: t)
qed

subsection \<open>The white point of \<open>sRGB_to_xyz\<close>\<close>

text \<open>A value in the binade \<open>[2\<^sup>e, 2\<^sup>e\<^sup>+\<^sup>1)\<close> is rounded on the grid of step
  \<open>2\<^sup>e\<^sup>-\<^sup>2\<^sup>3\<close>.\<close>

lemma to_float_eval:
  assumes "2 powi e \<le> \<bar>x\<bar>" and "\<bar>x\<bar> < 2 powi (e + 1)" and "- 126 \<le> e"
    and "round_even (x / 2 powi (e - 23)) = n"
  shows "to_float x = of_int n * 2 powi (e - 23)"
proof -
  have p: "(0::real) < 2 powi e" by simp
  with assms(1) have x: "0 < \<bar>x\<bar>" by linarith
  have q1: "2 powr real_of_int e = 2 powi e" by (rule powr_real_of_int') simp_all
  have q2: "2 powr real_of_int (e + 1) = 2 powi (e + 1)" by (rule powr_real_of_int') simp_all
  then have q3: "2 powr (real_of_int e + 1) = 2 powi (e + 1)" by simp
  have "\<lfloor>log 2 \<bar>x\<bar>\<rfloor> = e"
    using x assms(1,2) by (simp add: floor_log_eq_powr_iff q1 q3)
  with assms(3) have "max \<lfloor>log 2 \<bar>x\<bar>\<rfloor> (- 126) = e" by simp
  with x assms(4) show ?thesis by (simp add: to_float_def Let_def)
qed

lemma round_even_int: "round_even (of_int n) = n"
  by (simp add: round_even_def)

lemma round_even_down:
  assumes "of_int n \<le> q" and "q < of_int n + 1 / 2"
  shows "round_even q = n"
proof -
  from assms have "\<lfloor>q\<rfloor> = n" by linarith
  with assms show ?thesis by (simp add: round_even_def)
qed

lemma round_even_up:
  assumes "of_int n - 1 / 2 < q" and "q < of_int n"
  shows "round_even q = n"
proof -
  from assms have f: "\<lfloor>q\<rfloor> = n - 1" by linarith
  with assms show ?thesis by (simp add: round_even_def Let_def)
qed

text \<open>The three coordinates of white through lines 65--67: \<open>950470\<close>, \<open>1000000.1\<close> and
  \<open>1088830\<close> are converted to \<^verbatim>\<open>float\<close>, rounded to an integer and divided by 10000
  in \<^verbatim>\<open>float\<close>.\<close>

lemma white_X: "to_float (roundf (to_float 950470) / 10000) = 12458000 / 131072"
proof -
  have a: "to_float 950470 = 950470"
    using to_float_eval [of 19 950470 15207520] by (simp add: round_even_int [of 15207520, simplified])
  have r: "roundf 950470 = 950470" by (simp add: roundf_def)
  have "round_even (95047 / 1000 / 2 powi (6 - 23)) = 12458000"
    by (rule round_even_down) simp_all
  from to_float_eval [of 6 "95047 / 1000" 12458000, OF _ _ _ this]
  have "to_float (95047 / 1000) = 12458000 / 131072" by simp
  with a r show ?thesis by simp
qed

lemma white_Y: "to_float (roundf (to_float (10000001 / 10)) / 10000) = 100"
proof -
  have "round_even (10000001 / 10 / 2 powi (19 - 23)) = 16000002"
    by (rule round_even_up) simp_all
  from to_float_eval [of 19 "10000001 / 10" 16000002, OF _ _ _ this]
  have a: "to_float (10000001 / 10) = 16000002 / 16" by simp
  have r: "roundf (16000002 / 16) = 1000000" by (simp add: roundf_def)
  have c: "to_float 100 = 100"
    using to_float_eval [of 6 100 13107200] by (simp add: round_even_int [of 13107200, simplified])
  have "to_float (roundf (to_float (10000001 / 10)) / 10000) = to_float (1000000 / 10000)"
    by (simp only: a r)
  also have "\<dots> = to_float 100" by simp
  finally show ?thesis by (simp only: c)
qed

lemma white_Z: "to_float (roundf (to_float 1088830) / 10000) = 14271513 / 131072"
proof -
  have a: "to_float 1088830 = 1088830"
    using to_float_eval [of 20 1088830 8710640] by (simp add: round_even_int [of 8710640, simplified])
  have r: "roundf 1088830 = 1088830" by (simp add: roundf_def)
  have "round_even (108883 / 1000 / 2 powi (6 - 23)) = 14271513"
    by (rule round_even_up) simp_all
  from to_float_eval [of 6 "108883 / 1000" 14271513, OF _ _ _ this]
  have "to_float (108883 / 1000) = 14271513 / 131072" by simp
  with a r show ?thesis by simp
qed

text \<open>
  Claim C5 says that \<open>sRGB_to_xyz 255 255 255\<close> is exactly the D65 reference white
  \<open>(95.047, 100.000, 108.883)\<close>, which is also what the comment of lines 63--64 promises.
  The quotients of lines 65--67 are \<^verbatim>\<open>float\<close> quotients: the function returns
  \<open>X = 12458000 / 2\<^sup>1\<^sup>7 = 95.0469970703125\<close> and
  \<open>Z = 14271513 / 2\<^sup>1\<^sup>7 = 108.88300323486328125\<close>; only \<open>Y = 100\<close> is exact.
\<close>

theorem sRGB_to_xyz_white_single_precision:
  "sRGB_to_xyz 255 255 255 =
     \<lparr>xyz_X = 12458000 / 131072, xyz_Y = 100, xyz_Z = 14271513 / 131072\<rparr> \<and>
   sRGB_to_xyz 255 255 255 \<noteq> \<lparr>xyz_X = 95.047, xyz_Y = 100.000, xyz_Z = 108.883\<rparr>"
proof -
  have "sRGB_to_xyz 255 255 255 =
     \<lparr>xyz_X = 12458000 / 131072, xyz_Y = 100, xyz_Z = 14271513 / 131072\<rparr>"
    unfolding sRGB_to_xyz_def Let_def by (simp add: white_X white_Y white_Z)
  then show ?thesis by simp
qed

subsection \<open>The perceptual matcher compares truncated distances\<close>

lemma rgbCIEDE2000_nonneg: "0 \<le> rgbCIEDE2000 r g b nr ng nb"
  by (simp add: rgbCIEDE2000_def Let_def deltaE2000_nonneg_aux)

lemma double_to_int_floor: "0 \<le> x \<Longrightarrow> double_to_int x = \<lfloor>x\<rfloor>"
  by (simp add: double_to_int_def)

lemma ciede_diff_floor:
  "ciede_diff r g b c =
     \<lfloor>10000 * (case paletteEntryRgb c of (nr, ng, nb) \<Rightarrow> rgbCIEDE2000 r g b nr ng nb)\<rfloor>"
proof -
  obtain nr ng nb where p: "paletteEntryRgb c = (nr, ng, nb)" by (cases "paletteEntryRgb c") auto
  have "0 \<le> 10000 * rgbCIEDE2000 r g b nr ng nb" using rgbCIEDE2000_nonneg [of r g b nr ng nb] by simp
  then show ?thesis by (simp add: ciede_diff_def p double_to_int_floor)
qed

lemma ciede_diff_nonneg: "0 \<le> ciede_diff r g b c"
proof -
  obtain nr ng nb where p: "paletteEntryRgb c = (nr, ng, nb)" by (cases "paletteEntryRgb c") auto
  have "0 \<le> 10000 * rgbCIEDE2000 r g b nr ng nb" using rgbCIEDE2000_nonneg [of r g b nr ng nb] by simp
  then show ?thesis by (simp add: ciede_diff_floor p)
qed

lemma choose_XTterm256_first_min:
  "first_min (ciede_diff r g b) 16 256 (choose_XTterm256 r g b)"
  unfolding choose_XTterm256_def
  by (rule nearest_loop_first_min) (simp_all add: ciede_diff_nonneg)

text \<open>Two values with the same truncation of their 10000-fold differ by less than \<open>10\<^sup>-\<^sup>4\<close>.\<close>

lemma floor_eq_close:
  fixes x y :: real
  assumes "\<lfloor>10000 * x\<rfloor> = \<lfloor>10000 * y\<rfloor>"
  shows "\<bar>x - y\<bar> < 1 / 10000"
proof -
  define n where "n = real_of_int \<lfloor>10000 * y\<rfloor>"
  have "10000 * y < n + 1" "n \<le> 10000 * y" unfolding n_def by linarith+
  moreover have "10000 * x < n + 1" "n \<le> 10000 * x"
    unfolding n_def assms [symmetric] by linarith+
  ultimately show ?thesis by linarith
qed

text \<open>
  What the loop of \<open>choose_XTterm256\<close> does with the distances: the value compared for
  candidate \<open>k\<close> is the integer part of 10000 times the distance, the returned index is the
  first minimiser of that integer over 16..255, and two candidates with the same integer have
  distances that differ by less than \<open>10\<^sup>-\<^sup>4\<close>.
\<close>

lemma choose_XTterm256_truncated_first_min:
  "16 \<le> choose_XTterm256 r g b \<and> choose_XTterm256 r g b \<le> 255 \<and>
   (\<forall>k\<in>{16..255}. ciede_diff r g b k =
       \<lfloor>10000 * (case paletteEntryRgb k of (nr, ng, nb) \<Rightarrow> rgbCIEDE2000 r g b nr ng nb)\<rfloor>) \<and>
   (\<forall>k\<in>{16..255}. ciede_diff r g b (choose_XTterm256 r g b) \<le> ciede_diff r g b k) \<and>
   (\<forall>k\<in>{16..<choose_XTterm256 r g b}.
       ciede_diff r g b (choose_XTterm256 r g b) < ciede_diff r g b k) \<and>
   (\<forall>c1\<in>{16..255}. \<forall>c2\<in>{16..255}.
       c1 < c2 \<and> ciede_diff r g b c1 = ciede_diff r g b c2 \<longrightarrow> choose_XTterm256 r g b \<noteq> c2) \<and>
   (\<forall>c1\<in>{16..255}. \<forall>c2\<in>{16..255}.
       ciede_diff r g b c1 = ciede_diff r g b c2 \<longrightarrow>
       \<bar>(case paletteEntryRgb c1 of (nr, ng, nb) \<Rightarrow> rgbCIEDE2000 r g b nr ng nb)
         - (case paletteEntryRgb c2 of (nr, ng, nb) \<Rightarrow> rgbCIEDE2000 r g b nr ng nb)\<bar> < 1 / 10000)"
proof -
  let ?x = "choose_XTterm256 r g b"
  have m: "first_min (ciede_diff r g b) 16 256 ?x" by (rule choose_XTterm256_first_min)
  have i: "{16..255} = {16..<(256::int)}" by auto
  from m have a: "16 \<le> ?x \<and> ?x \<le> 255" by (simp add: first_min_def)
  from m have b: "\<forall>k\<in>{16..255}. ciede_diff r g b ?x \<le> ciede_diff r g b k"
    unfolding i first_min_def by simp
  from m have c: "\<forall>k\<in>{16..<?x}. ciede_diff r g b ?x < ciede_diff r g b k"
    unfolding first_min_def by simp
  have d: "\<forall>c1\<in>{16..255}. \<forall>c2\<in>{16..255}.
       c1 < c2 \<and> ciede_diff r g b c1 = ciede_diff r g b c2 \<longrightarrow> ?x \<noteq> c2"
  proof (intro ballI impI notI)
    fix c1 c2 :: int
    assume "c1 \<in> {16..255}" "c2 \<in> {16..255}"
      and h: "c1 < c2 \<and> ciede_diff r g b c1 = ciede_diff r g b c2" and e: "?x = c2"
    then have "c1 \<in> {16..<?x}" by simp
    with c have "ciede_diff r g b ?x < ciede_diff r g b c1" by blast
    with h e show False by simp
  qed
  have e: "\<forall>c1\<in>{16..255}. \<forall>c2\<in>{16..255}.
       ciede_diff r g b c1 = ciede_diff r g b c2 \<longrightarrow>
       \<bar>(case paletteEntryRgb c1 of (nr, ng, nb) \<Rightarrow> rgbCIEDE2000 r g b nr ng nb)
         - (case paletteEntryRgb c2 of (nr, ng, nb) \<Rightarrow> rgbCIEDE2000 r g b nr ng nb)\<bar> < 1 / 10000"
    unfolding ciede_diff_floor by (intro ballI impI floor_eq_close)
  have f: "\<forall>k\<in>{16..255}. ciede_diff r g b k =
       \<lfloor>10000 * (case paletteEntryRgb k of (nr, ng, nb) \<Rightarrow> rgbCIEDE2000 r g b nr ng nb)\<rfloor>"
    by (simp add: ciede_diff_floor)
  from a b c d e f show ?thesis by (intro conjI) (elim conjE, assumption)+
qed

subsection \<open>Out-of-range input\<close>

text \<open>Palette components are channel values, so for arguments of magnitude up to 10000 the
  sum of squares of \<^verbatim>\<open>XTerm_256\<close> stays below \<open>2\<^sup>3\<^sup>1\<close>: the model on \<open>int\<close> is the
  C computation there, with no overflow.\<close>

lemma cube_level_range: "0 \<le> n \<Longrightarrow> n \<le> 5 \<Longrightarrow> 0 \<le> cube_level n \<and> cube_level n \<le> 255"
  by (simp add: cube_level_def)

lemma paletteEntryRgb_range:
  assumes "16 \<le> c" and "c \<le> 255" and "paletteEntryRgb c = (pr, pg, pb)"
  shows "(0 \<le> pr \<and> pr \<le> 255) \<and> (0 \<le> pg \<and> pg \<le> 255) \<and> (0 \<le> pb \<and> pb \<le> 255)"
proof (cases "c < 232")
  case True
  define nr ng nb where "nr = (c - 16) div 36" and "ng = ((c - 16) div 6) mod 6"
    and "nb = (c - 16) mod 6"
  have i: "0 \<le> c - 16" using assms by simp
  have "0 \<le> nr" unfolding nr_def using i by (simp add: pos_imp_zdiv_nonneg_iff)
  moreover have "nr \<le> 215 div 36" unfolding nr_def using True by (intro zdiv_mono1) simp_all
  ultimately have r: "0 \<le> nr \<and> nr \<le> 5" by simp
  have g: "0 \<le> ng \<and> ng \<le> 5" unfolding ng_def
    using pos_mod_sign [of 6 "(c - 16) div 6"] pos_mod_bound [of 6 "(c - 16) div 6"] by linarith
  have b: "0 \<le> nb \<and> nb \<le> 5" unfolding nb_def
    using pos_mod_sign [of 6 "c - 16"] pos_mod_bound [of 6 "c - 16"] by linarith
  have "cube_coords (c - 16) = (nr, ng, nb)"
    unfolding nr_def ng_def nb_def by (rule cube_coords_decode [OF i])
  with assms(3) True have "pr = cube_level nr" "pg = cube_level ng" "pb = cube_level nb"
    by (simp_all add: paletteEntryRgb_cube)
  with r g b show ?thesis by (simp add: cube_level_def)
next
  case False
  with assms show ?thesis by (auto simp: paletteEntryRgb_grey)
qed

lemma square_bound:
  fixes d :: int
  assumes "\<bar>d\<bar> \<le> m"
  shows "d * d \<le> m * m"
proof -
  have "d * d = \<bar>d\<bar> * \<bar>d\<bar>" by simp
  also have "\<dots> \<le> m * m" using assms by (intro mult_mono) simp_all
  finally show ?thesis .
qed

lemma rgb_diff_no_overflow:
  assumes "\<bar>r\<bar> \<le> 10000 \<and> \<bar>g\<bar> \<le> 10000 \<and> \<bar>b\<bar> \<le> 10000" and "16 \<le> c" and "c \<le> 255"
  shows "rgb_diff r g b c < 2 ^ 31"
proof -
  obtain pr pg pb where p: "paletteEntryRgb c = (pr, pg, pb)" by (cases "paletteEntryRgb c") auto
  from paletteEntryRgb_range [OF assms(2,3) p] assms(1)
  have dr: "\<bar>pr - r\<bar> \<le> 10255" and dg: "\<bar>pg - g\<bar> \<le> 10255" and db: "\<bar>pb - b\<bar> \<le> 10255"
    by linarith+
  have "(pr - r) * (pr - r) \<le> 10255 * 10255" by (rule square_bound [OF dr])
  moreover have "(pg - g) * (pg - g) \<le> 10255 * 10255" by (rule square_bound [OF dg])
  moreover have "(pb - b) * (pb - b) \<le> 10255 * 10255" by (rule square_bound [OF db])
  ultimately have "(pr - r) * (pr - r) + (pg - g) * (pg - g) + (pb - b) * (pb - b) < 2 ^ 31"
    by simp
  then show ?thesis by (simp add: rgb_diff_def p Let_def)
qed

text \<open>
  Claim C4 says that every operation rejects an out-of-range channel with an InvalidInput
  error instead of computing a result. The channel value 300 is out of range, and
  \<open>PuTTY_256\<close> computes an index for \<open>(300, 300, 0)\<close>: 268, which is not even a palette
  index.
\<close>

theorem out_of_range_not_rejected_counterexample:
  "\<not> (0 \<le> (300::int) \<and> (300::int) \<le> 255) \<and>
   matchAnalytic 300 300 0 = Inr 268 \<and> matchAnalytic 300 300 0 \<noteq> Inl InvalidInput"
  by (simp add: matchAnalytic_def PuTTY_256_def cube_coord_def grey_branch_def cube_index_def)

text \<open>
  Claim C4, amended. No operation checks its input and none has an error return: for every
  triple of channel integers, in range or not (of magnitude up to 10000, where the integer
  arithmetic cannot overflow), each of the three matchers and the conversion to XYZ computes a
  result. The two search matchers still return an index in \<open>[16,255]\<close>; the analytic matcher
  returns the value of its formula.
\<close>

theorem operations_have_no_error_path:
  assumes "\<bar>r\<bar> \<le> 10000 \<and> \<bar>g\<bar> \<le> 10000 \<and> \<bar>b\<bar> \<le> 10000"
  shows "matchAnalytic r g b = Inr (PuTTY_256 r g b) \<and>
         matchEuclidean r g b = Inr (XTerm_256 r g b) \<and>
         (16 \<le> XTerm_256 r g b \<and> XTerm_256 r g b \<le> 255) \<and>
         (\<forall>k\<in>{16..255}. 0 \<le> rgb_diff r g b k \<and> rgb_diff r g b k < 2 ^ 31) \<and>
         matchPerceptual r g b = Inr (choose_XTterm256 r g b) \<and>
         (16 \<le> choose_XTterm256 r g b \<and> choose_XTterm256 r g b \<le> 255) \<and>
         rgbToXyz r g b = Inr (sRGB_to_xyz r g b)"
proof -
  have d: "\<forall>k\<in>{16..255}. 0 \<le> rgb_diff r g b k \<and> rgb_diff r g b k < 2 ^ 31"
  proof
    fix k :: int
    assume "k \<in> {16..255}"
    then have "16 \<le> k" "k \<le> 255" by simp_all
    from rgb_diff_no_overflow [OF assms this] rgb_diff_nonneg [of r g b k]
    show "0 \<le> rgb_diff r g b k \<and> rgb_diff r g b k < 2 ^ 31" by blast
  qed
  have "matchAnalytic r g b = Inr (PuTTY_256 r g b)" by (simp add: matchAnalytic_def)
  moreover have "matchEuclidean r g b = Inr (XTerm_256 r g b)" by (simp add: matchEuclidean_def)
  moreover have "matchPerceptual r g b = Inr (choose_XTterm256 r g b)"
    by (simp add: matchPerceptual_def)
  moreover have "rgbToXyz r g b = Inr (sRGB_to_xyz r g b)" by (simp add: rgbToXyz_def)
  moreover note XTerm_256_range [of r g b] choose_XTterm256_range [of r g b] d
  ultimately show ?thesis by blast
qed

theorem operations_have_no_error_path_witness:
  "\<bar>300::int\<bar> \<le> 10000 \<and> \<bar>0::int\<bar> \<le> 10000 \<and> \<not> (300::int) \<le> 255 \<and>
   matchAnalytic 300 300 0 = Inr 268 \<and>
   (\<exists>i. matchEuclidean 300 300 0 = Inr i \<and> 16 \<le> i \<and> i \<le> 255) \<and>
   (\<exists>i. matchPerceptual 300 300 0 = Inr i \<and> 16 \<le> i \<and> i \<le> 255)"
proof -
  have "PuTTY_256 300 300 0 = 268"
    by (simp add: PuTTY_256_def cube_coord_def grey_branch_def cube_index_def)
  with operations_have_no_error_path [of 300 300 0] show ?thesis by simp
qed

end
